theory Spec2Isabelle
  imports Main
begin

section \<open>Errors and JavaScript truthiness\<close>

text \<open>
  Everything the plugin throws is a JavaScript \<open>Error\<close> object (\<open>throw new Error(msg)\<close>
  in the sources) or an engine exception (\<open>TypeError\<close>); the handlers only ever read
  its \<open>message\<close>. Writing to the console (\<open>console.error\<close>) changes no value that the
  program reads and is left out throughout.

  Field names of the TypeScript types are kept, with a prefix where two types share a
  name or the name is taken in HOL (\<open>rule_name\<close> for the \<open>name\<close> of a rule,
  \<open>cond_value\<close> for the \<open>value\<close> of a condition, \<open>method_name\<close> for \<open>method\<close>,
  \<open>policy_id\<close> and \<open>wallet_id\<close> for \<open>id\<close>).
\<close>

datatype error = Error string | TypeError string

fun message :: "error \<Rightarrow> string" where
  "message (Error m) = m"
| "message (TypeError m) = m"

text \<open>
  A value of TypeScript type \<open>string | undefined\<close> (or \<open>string | null\<close>) is a
  \<open>string option\<close>. It is falsy when it is absent or the empty string.
\<close>

definition truthy :: "string option \<Rightarrow> bool" where
  "truthy v = (case v of None \<Rightarrow> False | Some s \<Rightarrow> s \<noteq> [])"

text \<open>\<open>a || b\<close> on such values.\<close>

definition js_or :: "string option \<Rightarrow> string option \<Rightarrow> string option" where
  "js_or a b = (if truthy a then a else b)"

section \<open>Policy data (types/policies.ts, as used by services/policies.ts)\<close>

text \<open>
  Modelled from the spec: the type declarations of types/policies.ts (\<open>PrivyRule\<close>,
  \<open>PrivyPolicyResponse\<close>, \<open>PrivyUpdatePolicy\<close>), which are not among the sources. A
  Condition is a field source, a field name, a comparison operator and a comparison
  value; a Rule is a display name, its conditions and an action (ALLOW or DENY); a
  MethodRule is a method name and an ordered sequence of rules; a Policy is an
  identifier, a name, a target chain, an ordered list of MethodRules and a default
  action. The fields are named as services/policies.ts and index.ts read and write them.

  The comparison value of a condition has type \<open>string | number | string[]\<close> (the
  annotation of the filter in \<open>denylistToken\<close>). The editor only compares it with a
  string by \<open>===\<close>, so the payload of a number never matters.
\<close>

datatype cond_value = StrVal string | NumVal int | StrListVal "string list"

record PrivyCondition =
  field_source :: string
  field :: string
  operator :: string
  cond_value :: cond_value

text \<open>
  \<open>conditions\<close> is read with \<open>rule.conditions?.some(...)\<close>: it may be undefined.
\<close>

record PrivyRule =
  rule_name :: string
  conditions :: "PrivyCondition list option"
  action :: string

text \<open>
  JavaScript objects and arrays are references. The editor writes to the \<open>rules\<close> array
  of a MethodRule object (\<open>push\<close>) and to the \<open>rules\<close> property of a MethodRule
  object (assignment); both are reachable from the policy it was given. So MethodRule
  objects and rule arrays live in a store and are named by address; a policy holds the
  addresses of its MethodRule objects. Rules and conditions are never written to and are
  plain values.
\<close>

type_synonym addr = nat

record MethodRule =
  method_name :: string
  rules :: addr

record store =
  objects :: "MethodRule list"
  arrays :: "PrivyRule list list"

definition get_object :: "store \<Rightarrow> addr \<Rightarrow> MethodRule option" where
  "get_object s a = (if a < length (objects s) then Some (objects s ! a) else None)"

definition get_array :: "store \<Rightarrow> addr \<Rightarrow> PrivyRule list option" where
  "get_array s a = (if a < length (arrays s) then Some (arrays s ! a) else None)"

text \<open>\<open>arr.push(x)\<close>: the array at the address grows in place.\<close>

definition array_push :: "store \<Rightarrow> addr \<Rightarrow> PrivyRule \<Rightarrow> store" where
  "array_push s a r = s\<lparr>arrays := (arrays s)[a := (arrays s ! a) @ [r]]\<rparr>"

text \<open>A new array (the result of \<open>filter\<close>) gets the next free address.\<close>

definition new_array :: "store \<Rightarrow> PrivyRule list \<Rightarrow> store \<times> addr" where
  "new_array s rs = (s\<lparr>arrays := arrays s @ [rs]\<rparr>, length (arrays s))"

text \<open>\<open>obj.rules = a\<close>: the object at the address is updated in place.\<close>

definition set_rules :: "store \<Rightarrow> addr \<Rightarrow> addr \<Rightarrow> store" where
  "set_rules s m a = s\<lparr>objects := (objects s)[m := (objects s ! m)\<lparr>rules := a\<rparr>]\<rparr>"

text \<open>
  \<open>PrivyUpdatePolicy\<close> is the editable part of a policy; \<open>PrivyPolicyResponse\<close> has these
  two fields and more. \<open>method_rules\<close> is tested for being undefined by the editor.
\<close>

record PrivyUpdatePolicy =
  name :: string
  method_rules :: "addr list option"

record PrivyPolicyResponse = PrivyUpdatePolicy +
  policy_id :: string
  version :: string
  policy_chain_type :: string
  default_action :: string

text \<open>
  What a reader of a policy sees: the rule list of the MethodRule at an address, and
  the rule list of the first MethodRule of a \<open>method_rules\<close> value.
\<close>

definition rules_at :: "store \<Rightarrow> addr \<Rightarrow> PrivyRule list option" where
  "rules_at s m = (case get_object s m of None \<Rightarrow> None | Some obj \<Rightarrow> get_array s (rules obj))"

definition first_rules :: "store \<Rightarrow> addr list option \<Rightarrow> PrivyRule list option" where
  "first_rules s mrs = (case mrs of Some (m # _) \<Rightarrow> rules_at s m | _ \<Rightarrow> None)"

text \<open>Every MethodRule of the policy is an object of the store with a rule array.\<close>

definition wf_policy :: "store \<Rightarrow> addr list option \<Rightarrow> bool" where
  "wf_policy s mrs = (case mrs of None \<Rightarrow> True | Some ms \<Rightarrow> list_all (\<lambda>m. rules_at s m \<noteq> None) ms)"

section \<open>The policy rule editor (services/policies.ts)\<close>

definition allow_condition :: "string \<Rightarrow> PrivyCondition" where
  "allow_condition tokenAddress =
     \<lparr>field_source = ''ethereum_transaction'', field = ''to'', operator = ''eq'',
      cond_value = StrVal tokenAddress\<rparr>"

definition allow_rule :: "string \<Rightarrow> string \<Rightarrow> PrivyRule" where
  "allow_rule tokenName tokenAddress =
     \<lparr>rule_name = ''Allowlist '' @ tokenName,
      conditions = Some [allow_condition tokenAddress],
      action = ''ALLOW''\<rparr>"

text \<open>
  \<open>{ name: existingPolicy.name, method_rules: existingPolicy.method_rules ?
  [...existingPolicy.method_rules] : [] }\<close>. The spread makes a new outer array holding
  the same MethodRule objects; neither the old nor the new outer array is written to
  afterwards, so the outer array is a value.
\<close>

definition copy_policy :: "PrivyPolicyResponse \<Rightarrow> PrivyUpdatePolicy" where
  "copy_policy existingPolicy =
     \<lparr>name = name existingPolicy,
      method_rules = Some (case method_rules existingPolicy of Some ms \<Rightarrow> ms | None \<Rightarrow> [])\<rparr>"

text \<open>
  \<open>allowlistToken\<close>. An address outside the store has no counterpart in a running
  program (there \<open>rules\<close> would be undefined and \<open>push\<close> on it a TypeError); the model
  answers with that error.
\<close>

definition allowlistToken ::
  "store \<Rightarrow> PrivyPolicyResponse \<Rightarrow> string \<Rightarrow> string \<Rightarrow> error + store \<times> PrivyUpdatePolicy" where
  "allowlistToken s existingPolicy tokenName tokenAddress =
     (let newRule = allow_rule tokenName tokenAddress;
          updatedPolicy = copy_policy existingPolicy
      in case method_rules updatedPolicy of
           Some (m # _) \<Rightarrow>
             (case rules_at s m of
                None \<Rightarrow> Inl (TypeError ''Cannot read properties of undefined'')
              | Some _ \<Rightarrow> Inr (array_push s (rules (objects s ! m)) newRule, updatedPolicy))
         | _ \<Rightarrow> Inr (s, updatedPolicy))"

text \<open>
  The predicate of the filter in \<open>denylistToken\<close>: \<open>rule.conditions?.some(c =>
  c.field_source === "ethereum_transaction" && c.field === "to" && c.value ===
  tokenAddress)\<close>, which is undefined (falsy) when the rule has no conditions.
\<close>

definition isTokenRule :: "string \<Rightarrow> PrivyRule \<Rightarrow> bool" where
  "isTokenRule tokenAddress rule =
     (case conditions rule of
        None \<Rightarrow> False
      | Some cs \<Rightarrow> list_ex (\<lambda>condition.
          field_source condition = ''ethereum_transaction'' \<and>
          field condition = ''to'' \<and>
          cond_value condition = StrVal tokenAddress) cs)"

definition denylistToken ::
  "store \<Rightarrow> PrivyPolicyResponse \<Rightarrow> string \<Rightarrow> string \<Rightarrow> error + store \<times> PrivyUpdatePolicy" where
  "denylistToken s existingPolicy tokenName tokenAddress =
     (let updatedPolicy = copy_policy existingPolicy
      in case method_rules updatedPolicy of
           Some (m # _) \<Rightarrow>
             (case rules_at s m of
                None \<Rightarrow> Inl (TypeError ''Cannot read properties of undefined'')
              | Some rs \<Rightarrow>
                  (let (s', a) = new_array s (filter (\<lambda>rule. \<not> isTokenRule tokenAddress rule) rs)
                   in Inr (set_rules s' m a, updatedPolicy)))
         | _ \<Rightarrow> Inr (s, updatedPolicy))"

section \<open>Strings\<close>

text \<open>
  \<open>toLowerCase\<close> on the letters A to Z. The handlers compare its result only with
  "ethereum", "solana" and "monad"; a character outside ASCII is never lowered into one
  of the letters of these words, so the other characters are left as they are.
\<close>

fun toLowerChar :: "char \<Rightarrow> char" where
  "toLowerChar (Char b0 b1 b2 b3 b4 b5 b6 b7) =
     (let n = (of_char (Char b0 b1 b2 b3 b4 b5 b6 b7) :: nat)
      in if 65 \<le> n \<and> n \<le> 90 then Char b0 b1 b2 b3 b4 True b6 b7
         else Char b0 b1 b2 b3 b4 b5 b6 b7)"

definition toLowerCase :: "string \<Rightarrow> string" where
  "toLowerCase s = map toLowerChar s"

text \<open>\<open>s.includes(p)\<close>: \<open>p\<close> occurs in \<open>s\<close> at some position.\<close>

fun str_includes :: "string \<Rightarrow> string \<Rightarrow> bool" where
  "str_includes [] p = (p = [])"
| "str_includes (c # cs) p = (take (length p) (c # cs) = p \<or> str_includes cs p)"

text \<open>\<open>s.replace(p, r)\<close> with a string pattern: the first occurrence only.\<close>

fun str_replace :: "string \<Rightarrow> string \<Rightarrow> string \<Rightarrow> string" where
  "str_replace [] p r = (if p = [] then r else [])"
| "str_replace (c # cs) p r =
     (if take (length p) (c # cs) = p then r @ drop (length p) (c # cs)
      else c # str_replace cs p r)"

text \<open>\<open>xs.join(sep)\<close>.\<close>

fun join :: "string \<Rightarrow> string list \<Rightarrow> string" where
  "join sep [] = []"
| "join sep [x] = x"
| "join sep (x # y # ys) = x @ sep @ join sep (y # ys)"

text \<open>\<open>a || b\<close> where \<open>b\<close> is a string literal.\<close>

definition js_or_str :: "string option \<Rightarrow> string \<Rightarrow> string" where
  "js_or_str a b = (case a of None \<Rightarrow> b | Some s \<Rightarrow> if s = [] then b else s)"

section \<open>Configuration (environment.ts)\<close>

record IAgentRuntime =
  getSetting :: "string \<Rightarrow> string option"

record PrivyConfig =
  PRIVY_APP_ID :: string
  PRIVY_APP_SECRET :: string
  PRIVY_MONAD_RPC_URL :: "string option"
  PRIVY_MONAD_CHAIN_ID :: "string option"

text \<open>
  \<open>validatePrivyConfig\<close>. Its \<open>catch\<close> logs the error and throws it again, so the
  error leaves the function as it was thrown.
\<close>

definition validatePrivyConfig :: "IAgentRuntime \<Rightarrow> error + PrivyConfig" where
  "validatePrivyConfig runtime =
     (let app_id = getSetting runtime ''PRIVY_APP_ID'';
          app_secret = getSetting runtime ''PRIVY_APP_SECRET''
      in if \<not> truthy app_id then Inl (Error ''Privy App ID is required'')
         else if \<not> truthy app_secret then Inl (Error ''Privy App Secret is required'')
         else Inr \<lparr>PRIVY_APP_ID = the app_id,
                   PRIVY_APP_SECRET = the app_secret,
                   PRIVY_MONAD_RPC_URL = js_or (getSetting runtime ''PRIVY_MONAD_RPC_URL'') None,
                   PRIVY_MONAD_CHAIN_ID = js_or (getSetting runtime ''PRIVY_MONAD_CHAIN_ID'') None\<rparr>)"

section \<open>Requests and responses\<close>

text \<open>
  A policy as it travels in a JSON body: the MethodRules with their rule lists inline.
\<close>

record MethodRuleJson =
  json_method :: string
  json_rules :: "PrivyRule list"

record PolicyJson =
  json_id :: string
  json_name :: string
  json_version :: string
  json_chain_type :: string
  json_method_rules :: "MethodRuleJson list option"
  json_default_action :: string

text \<open>
  Modelled from the spec: the type declarations of the wallet requests and responses
  (imported from types/wallets.js), which are not among the sources. A Wallet is an
  identifier, an address, a chain type and the list of policy identifiers attached; the
  requests and the other responses have the fields that services/wallets.ts and index.ts
  read and write.
\<close>

record PrivyCreateWalletRequest =
  chain_type :: string
  policy_ids :: "string list option"

record PrivyUpdateWalletRequest =
  update_policy_ids :: "string list"

record PrivyCreateWalletResponse =
  wallet_id :: string
  address :: string
  wallet_chain_type :: string
  wallet_policy_ids :: "string list"

record PrivyTransactionRequest =
  tx_wallet_id :: string
  to :: string
  tx_value :: string
  tx_data :: "string option"

record PrivyTransactionResponse =
  hash :: string

record PrivySignatureResponse =
  signature :: string

text \<open>
  What \<open>JSON.stringify\<close> is given at each call of \<open>fetch\<close>. The policy template of
  \<open>createPolicy\<close> is version, name, chain_type, method_rules, default_action.
\<close>

datatype request_body =
    NoBody
  | CreatePolicyBody string string string "MethodRuleJson list" string
  | UpdatePolicyBody string "MethodRuleJson list"
  | CreateWalletBody PrivyCreateWalletRequest
  | UpdateWalletBody PrivyUpdateWalletRequest
  | TransactionBody string string "string option"
  | SignBody string

text \<open>
  \<open>Basic a b\<close> stands for the header value "Basic " followed by the base64 encoding of
  \<open>a:b\<close>; the encoding is not computed.
\<close>

datatype header_value = Plain string | Basic string string

record http_request =
  http_method :: string
  url :: string
  headers :: "(string \<times> header_value) list"
  req_body :: request_body

text \<open>
  The answer to one \<open>fetch\<close>: the call (or reading the body) throws; or the status is
  not a success, with the \<open>message\<close> field of the JSON error body (if it has one) and
  the status text; or the parsed body of a success.
\<close>

datatype 'a fetch_result = Rejected error | NotOk "string option" string | Ok 'a

text \<open>The remote API: one answer function for each kind of request the services make.\<close>

record remote =
  post_policies :: "http_request \<Rightarrow> PolicyJson fetch_result"
  get_policies_id :: "http_request \<Rightarrow> PolicyJson fetch_result"
  patch_policies_id :: "http_request \<Rightarrow> PolicyJson fetch_result"
  post_wallets :: "http_request \<Rightarrow> PrivyCreateWalletResponse fetch_result"
  patch_wallets_id :: "http_request \<Rightarrow> PrivyCreateWalletResponse fetch_result"
  get_wallets :: "http_request \<Rightarrow> PrivyCreateWalletResponse list fetch_result"
  post_transactions :: "http_request \<Rightarrow> PrivyTransactionResponse fetch_result"
  post_sign :: "http_request \<Rightarrow> PrivySignatureResponse fetch_result"

text \<open>
  An asynchronous computation: the requests it has sent, in order, and either the error
  it throws or the value it returns.
\<close>

type_synonym 'a io = "http_request list \<times> (error + 'a)"

definition io_return :: "'a \<Rightarrow> 'a io" where
  "io_return x = ([], Inr x)"

definition io_throw :: "error \<Rightarrow> 'a io" where
  "io_throw e = ([], Inl e)"

definition io_lift :: "error + 'a \<Rightarrow> 'a io" where
  "io_lift r = ([], r)"

definition io_bind :: "'a io \<Rightarrow> ('a \<Rightarrow> 'b io) \<Rightarrow> 'b io" where
  "io_bind m f =
     (case m of
        (t, Inl e) \<Rightarrow> (t, Inl e)
      | (t, Inr x) \<Rightarrow> (case f x of (t', r) \<Rightarrow> (t @ t', r)))"

text \<open>\<open>try { m } catch (error) { h error }\<close>.\<close>

definition try_catch :: "'a io \<Rightarrow> (error \<Rightarrow> 'a io) \<Rightarrow> 'a io" where
  "try_catch m h =
     (case m of
        (t, Inl e) \<Rightarrow> (case h e of (t', r) \<Rightarrow> (t @ t', r))
      | (t, Inr x) \<Rightarrow> (t, Inr x))"

text \<open>
  The body shared by every service function: \<open>fetch\<close>, then \<open>throw new
  Error(error?.message || response.statusText)\<close> when the response is not ok, else the
  parsed body. The \<open>catch\<close> around it logs and throws the error again.
\<close>

definition fetch_json :: "(http_request \<Rightarrow> 'a fetch_result) \<Rightarrow> http_request \<Rightarrow> 'a io" where
  "fetch_json endpoint request =
     ([request],
      case endpoint request of
        Rejected e \<Rightarrow> Inl e
      | NotOk msg statusText \<Rightarrow> Inl (Error (js_or_str msg statusText))
      | Ok d \<Rightarrow> Inr d)"

definition service_headers :: "string \<Rightarrow> string \<Rightarrow> (string \<times> header_value) list" where
  "service_headers privyAppID privyAppSecret =
     [(''Content-Type'', Plain ''application/json''),
      (''privy-app-id'', Plain privyAppID),
      (''Authorization'', Basic privyAppID privyAppSecret)]"

definition with_signature ::
  "string option \<Rightarrow> (string \<times> header_value) list \<Rightarrow> (string \<times> header_value) list" where
  "with_signature authRequestKey hs =
     (if truthy authRequestKey
      then hs @ [(''privy-authorization-signature'', Plain (the authRequestKey))]
      else hs)"

section \<open>The policy service (services/policies.ts)\<close>

text \<open>
  \<open>policyService(name, privyAppID, privyAppSecret, authRequestKey)\<close> returns three
  functions that share these parameters; here each function takes them first, after the
  remote API. \<open>BASE_URL\<close> of this file is \<open>POLICIES_URL\<close>.
\<close>

definition POLICIES_URL :: string where
  "POLICIES_URL = ''https://api.privy.io/v1/policies''"

definition createPolicy ::
  "remote \<Rightarrow> string \<Rightarrow> string \<Rightarrow> string \<Rightarrow> string option \<Rightarrow> PolicyJson io" where
  "createPolicy rem policyName privyAppID privyAppSecret authRequestKey =
     fetch_json (post_policies rem)
       \<lparr>http_method = ''POST'', url = POLICIES_URL,
        headers = with_signature authRequestKey (service_headers privyAppID privyAppSecret),
        req_body = CreatePolicyBody ''1.0'' policyName ''ethereum''
                 [\<lparr>json_method = ''eth_sendTransaction'', json_rules = []\<rparr>] ''DENY''\<rparr>"

definition getPolicy ::
  "remote \<Rightarrow> string \<Rightarrow> string \<Rightarrow> string \<Rightarrow> string option \<Rightarrow> string \<Rightarrow> PolicyJson io" where
  "getPolicy rem policyName privyAppID privyAppSecret authRequestKey policyId =
     (if policyId = [] then io_throw (Error ''Invalid parameters'')
      else fetch_json (get_policies_id rem)
             \<lparr>http_method = ''GET'', url = POLICIES_URL @ ''/'' @ policyId,
              headers = with_signature authRequestKey (service_headers privyAppID privyAppSecret),
              req_body = NoBody\<rparr>)"

text \<open>
  \<open>response.json()\<close> builds new objects: each MethodRule of the body becomes an object
  of a new store, with its own rule array.
\<close>

definition parse_policy :: "PolicyJson \<Rightarrow> store \<times> PrivyPolicyResponse" where
  "parse_policy j =
     (let mrs = (case json_method_rules j of None \<Rightarrow> [] | Some ms \<Rightarrow> ms)
      in (\<lparr>objects = map (\<lambda>i. \<lparr>method_name = json_method (mrs ! i), rules = i\<rparr>) [0..<length mrs],
           arrays = map json_rules mrs\<rparr>,
          \<lparr>name = json_name j,
           method_rules = map_option (\<lambda>ms. [0..<length ms]) (json_method_rules j),
           policy_id = json_id j, version = json_version j,
           policy_chain_type = json_chain_type j,
           default_action = json_default_action j\<rparr>))"

text \<open>
  \<open>JSON.stringify(updatedPolicy)\<close> reads the MethodRule objects and their rule arrays as
  they are in the store at that moment.
\<close>

definition stringify_method_rule :: "store \<Rightarrow> addr \<Rightarrow> MethodRuleJson" where
  "stringify_method_rule s m =
     \<lparr>json_method = method_name (objects s ! m),
      json_rules = arrays s ! rules (objects s ! m)\<rparr>"

definition stringify_policy :: "store \<Rightarrow> PrivyUpdatePolicy \<Rightarrow> request_body" where
  "stringify_policy s p =
     UpdatePolicyBody (name p)
       (map (stringify_method_rule s) (case method_rules p of None \<Rightarrow> [] | Some ms \<Rightarrow> ms))"

definition updatePolicy ::
  "remote \<Rightarrow> string \<Rightarrow> string \<Rightarrow> string \<Rightarrow> string option \<Rightarrow> string \<Rightarrow> string \<Rightarrow> string
     \<Rightarrow> bool \<Rightarrow> PolicyJson io" where
  "updatePolicy rem policyName privyAppID privyAppSecret authRequestKey policyId tokenName
     tokenAddress remove =
     (if policyId = [] then io_throw (Error ''Invalid parameters'')
      else io_bind (getPolicy rem policyName privyAppID privyAppSecret authRequestKey policyId)
        (\<lambda>existingJson.
           let (s, existingPolicy) = parse_policy existingJson
           in io_bind
                (io_lift (if remove then denylistToken s existingPolicy tokenName tokenAddress
                          else allowlistToken s existingPolicy tokenName tokenAddress))
                (\<lambda>(s', updatedPolicy).
                   fetch_json (patch_policies_id rem)
                     \<lparr>http_method = ''PATCH'', url = POLICIES_URL @ ''/'' @ policyId,
                      headers = service_headers privyAppID privyAppSecret,
                      req_body = stringify_policy s' updatedPolicy\<rparr>)))"

section \<open>The wallet service (services/wallets.ts)\<close>

text \<open>
  The functions of \<open>walletService(privyAppID, privyAppSecret, authRequestKey)\<close>; only
  \<open>createWallet\<close> reads \<open>authRequestKey\<close>. \<open>BASE_URL\<close> of this file is \<open>WALLETS_URL\<close>.
\<close>

definition WALLETS_URL :: string where
  "WALLETS_URL = ''https://api.privy.io/v1/wallets''"

definition createWallet ::
  "remote \<Rightarrow> string \<Rightarrow> string \<Rightarrow> string option \<Rightarrow> PrivyCreateWalletRequest
     \<Rightarrow> PrivyCreateWalletResponse io" where
  "createWallet rem privyAppID privyAppSecret authRequestKey request =
     fetch_json (post_wallets rem)
       \<lparr>http_method = ''POST'', url = WALLETS_URL,
        headers = with_signature authRequestKey (service_headers privyAppID privyAppSecret),
        req_body = CreateWalletBody request\<rparr>"

definition updateWallet ::
  "remote \<Rightarrow> string \<Rightarrow> string \<Rightarrow> string \<Rightarrow> PrivyUpdateWalletRequest
     \<Rightarrow> PrivyCreateWalletResponse io" where
  "updateWallet rem privyAppID privyAppSecret walletId request =
     (if walletId = [] then io_throw (Error ''Wallet ID is required'')
      else fetch_json (patch_wallets_id rem)
             \<lparr>http_method = ''PATCH'', url = WALLETS_URL @ ''/'' @ walletId,
              headers = service_headers privyAppID privyAppSecret,
              req_body = UpdateWalletBody request\<rparr>)"

definition getWallets :: "remote \<Rightarrow> string \<Rightarrow> string \<Rightarrow> PrivyCreateWalletResponse list io" where
  "getWallets rem privyAppID privyAppSecret =
     fetch_json (get_wallets rem)
       \<lparr>http_method = ''GET'', url = WALLETS_URL,
        headers = service_headers privyAppID privyAppSecret,
        req_body = NoBody\<rparr>"

definition sendTransaction ::
  "remote \<Rightarrow> string \<Rightarrow> string \<Rightarrow> PrivyTransactionRequest \<Rightarrow> PrivyTransactionResponse io" where
  "sendTransaction rem privyAppID privyAppSecret request =
     (if tx_wallet_id request = [] then io_throw (Error ''Wallet ID is required'')
      else fetch_json (post_transactions rem)
             \<lparr>http_method = ''POST'',
              url = WALLETS_URL @ ''/'' @ tx_wallet_id request @ ''/transactions'',
              headers = service_headers privyAppID privyAppSecret,
              req_body = TransactionBody (to request) (tx_value request) (tx_data request)\<rparr>)"

definition signTransaction ::
  "remote \<Rightarrow> string \<Rightarrow> string \<Rightarrow> string \<Rightarrow> string \<Rightarrow> PrivySignatureResponse io" where
  "signTransaction rem privyAppID privyAppSecret walletId msg =
     (if walletId = [] then io_throw (Error ''Wallet ID is required'')
      else fetch_json (post_sign rem)
             \<lparr>http_method = ''POST'', url = WALLETS_URL @ ''/'' @ walletId @ ''/sign'',
              headers = service_headers privyAppID privyAppSecret,
              req_body = SignBody msg\<rparr>)"

section \<open>The actions (index.ts)\<close>

record PrivyPluginConfig =
  defaultPolicyName :: "string option"
  defaultPolicyId :: "string option"

definition DEFAULT_CONFIG :: PrivyPluginConfig where
  "DEFAULT_CONFIG = \<lparr>defaultPolicyName = Some ''DefaultPolicy'', defaultPolicyId = Some ''''\<rparr>"

text \<open>
  The option bag of a handler, each option at the type the handler casts it to; an
  option that is missing or undefined is \<open>None\<close>.
\<close>

record action_options =
  opt_policyId :: "string option"
  opt_name :: "string option"
  opt_tokenName :: "string option"
  opt_tokenAddress :: "string option"
  opt_remove :: "bool option"
  opt_chainType :: "string option"
  opt_walletId :: "string option"
  opt_policyIds :: "string list option"
  opt_to :: "string option"
  opt_value :: "string option"
  opt_data :: "string option"
  opt_message :: "string option"

datatype result_data =
    PolicyData PolicyJson
  | WalletData PrivyCreateWalletResponse
  | WalletsData "PrivyCreateWalletResponse list"
  | TransactionData PrivyTransactionResponse
  | SignatureData PrivySignatureResponse

record ActionResult =
  success :: bool
  response :: string
  data :: "result_data option"

text \<open>
  Every handler has the shape \<open>async (runtime, message, state, options) => { try { ... }
  catch (error) { ... } }\<close>. An action holds the two blocks; \<open>handler\<close> below puts them
  together. The plugin configuration (\<open>this.config\<close>) and the remote API are explicit
  arguments. The handler's \<open>message\<close> and \<open>state\<close> arguments are never read. A result of
  the form \<open>(t, Inl e)\<close> is an error thrown out of the block.
\<close>

type_synonym try_block =
  "PrivyPluginConfig \<Rightarrow> IAgentRuntime \<Rightarrow> action_options \<Rightarrow> remote \<Rightarrow> ActionResult io"

record Action =
  action_name :: string
  validate :: "IAgentRuntime \<Rightarrow> bool"
  try_block :: try_block
  catch_block :: "error \<Rightarrow> ActionResult io"

definition handler :: "Action \<Rightarrow> try_block" where
  "handler a this_config runtime options rem =
     try_catch (try_block a this_config runtime options rem) (catch_block a)"

text \<open>The \<open>validate\<close> function of every action.\<close>

definition validate_config :: "IAgentRuntime \<Rightarrow> bool" where
  "validate_config runtime = (case validatePrivyConfig runtime of Inl e \<Rightarrow> False | Inr c \<Rightarrow> True)"

definition failure :: "string \<Rightarrow> ActionResult io" where
  "failure text = io_return \<lparr>success = False, response = text, data = None\<rparr>"

subsection \<open>PRIVY_GET_POLICY\<close>

definition get_policy_try :: try_block where
  "get_policy_try this_config runtime options rem =
     io_bind (io_lift (validatePrivyConfig runtime)) (\<lambda>config.
       let privyAppID = PRIVY_APP_ID config;
           privyAppSecret = PRIVY_APP_SECRET config;
           policyId = js_or (opt_policyId options) (defaultPolicyId this_config);
           policyName = js_or_str (js_or (opt_name options) (defaultPolicyName this_config))
                          ''DefaultPolicy''
       in if \<not> truthy policyId
          then failure ''Policy ID is required. Please specify a policy ID or set a default policy ID in the configuration.''
          else io_bind (getPolicy rem policyName privyAppID privyAppSecret None (the policyId))
            (\<lambda>policyData.
               case json_method_rules policyData of
                 None \<Rightarrow> io_throw (TypeError ''Cannot read properties of undefined'')
               | Some mrs \<Rightarrow>
                   let ruleNames = concat (map (\<lambda>methodRule.
                         map (\<lambda>rule. str_replace (rule_name rule) ''Allowlist '' '''')
                           (json_rules methodRule)) mrs);
                       responseText =
                         ''These are tokens that are allowed for transactions: '' @
                         join '', '' ruleNames @
                         ''. If the token you want to use is not on this list, you will need to request it to be added.''
                   in io_return \<lparr>success = True, response = responseText,
                                 data = Some (PolicyData policyData)\<rparr>))"

definition get_policy_catch :: "error \<Rightarrow> ActionResult io" where
  "get_policy_catch e = failure (''Error retrieving policy: '' @ message e)"

subsection \<open>PRIVY_CREATE_POLICY\<close>

definition create_policy_try :: try_block where
  "create_policy_try this_config runtime options rem =
     io_bind (io_lift (validatePrivyConfig runtime)) (\<lambda>config.
       let privyAppID = PRIVY_APP_ID config;
           privyAppSecret = PRIVY_APP_SECRET config;
           policyName = js_or_str (js_or (opt_name options) (defaultPolicyName this_config))
                          ''DefaultPolicy''
       in io_bind (createPolicy rem policyName privyAppID privyAppSecret None)
            (\<lambda>policyData.
               io_return
                 \<lparr>success = True,
                  response = ''Successfully created a new compliance policy with ID: '' @
                    json_id policyData @ ''. You can now add approved tokens to this policy.'',
                  data = Some (PolicyData policyData)\<rparr>))"

definition create_policy_catch :: "error \<Rightarrow> ActionResult io" where
  "create_policy_catch e = failure (''Error creating policy: '' @ message e)"

subsection \<open>PRIVY_UPDATE_POLICY\<close>

definition update_policy_try :: try_block where
  "update_policy_try this_config runtime options rem =
     io_bind (io_lift (validatePrivyConfig runtime)) (\<lambda>config.
       let privyAppID = PRIVY_APP_ID config;
           privyAppSecret = PRIVY_APP_SECRET config;
           policyId = js_or (opt_policyId options) (defaultPolicyId this_config);
           policyName = js_or_str (js_or (opt_name options) (defaultPolicyName this_config))
                          ''DefaultPolicy'';
           tokenName = opt_tokenName options;
           tokenAddress = opt_tokenAddress options;
           remove = (opt_remove options = Some True)
       in if \<not> truthy policyId
          then failure ''Policy ID is required. Please specify a policy ID or set a default policy ID in the configuration.''
          else if \<not> truthy tokenName \<or> \<not> truthy tokenAddress
          then failure ''Token name and address are required for policy updates.''
          else io_bind (updatePolicy rem policyName privyAppID privyAppSecret None (the policyId)
                          (the tokenName) (the tokenAddress) remove)
            (\<lambda>policyData.
               let act = (if remove then ''removed from'' else ''added to'')
               in io_return
                    \<lparr>success = True,
                     response = ''Successfully '' @ act @ '' the policy: token '' @
                       the tokenName @ '' ('' @ the tokenAddress @ '') has been '' @ act @
                       '' the allowlist.'',
                     data = Some (PolicyData policyData)\<rparr>))"

definition update_policy_catch :: "error \<Rightarrow> ActionResult io" where
  "update_policy_catch e = failure (''Error updating policy: '' @ message e)"

subsection \<open>PRIVY_CREATE_WALLET\<close>

definition create_wallet_try :: try_block where
  "create_wallet_try this_config runtime options rem =
     io_bind (io_lift (validatePrivyConfig runtime)) (\<lambda>config.
       let privyAppID = PRIVY_APP_ID config;
           privyAppSecret = PRIVY_APP_SECRET config;
           chainType = js_or_str (map_option toLowerCase (opt_chainType options)) ''ethereum''
       in if chainType \<notin> set [''ethereum'', ''solana'', ''monad'']
          then failure ''Invalid chain type. Supported chain types are: ethereum, solana, monad.''
          else
            let apiChainType = (if chainType = ''monad'' then ''ethereum'' else chainType);
                policyId = js_or (opt_policyId options) (defaultPolicyId this_config);
                walletRequest = \<lparr>chain_type = apiChainType,
                                 policy_ids = (if truthy policyId then Some [the policyId] else None)\<rparr>
            in io_bind (createWallet rem privyAppID privyAppSecret None walletRequest)
                 (\<lambda>walletData.
                    let responseText =
                          (if chainType = ''monad''
                           then ''Successfully created a new Monad wallet with address: '' @
                                address walletData @
                                ''. This wallet is compatible with the Monad blockchain.''
                           else ''Successfully created a new wallet with address: '' @
                                address walletData)
                    in io_return \<lparr>success = True, response = responseText,
                                  data = Some (WalletData walletData)\<rparr>))"

definition create_wallet_catch :: "error \<Rightarrow> ActionResult io" where
  "create_wallet_catch e = failure (''Error creating wallet: '' @ message e)"

subsection \<open>PRIVY_UPDATE_WALLET\<close>

definition update_wallet_try :: try_block where
  "update_wallet_try this_config runtime options rem =
     io_bind (io_lift (validatePrivyConfig runtime)) (\<lambda>config.
       let privyAppID = PRIVY_APP_ID config;
           privyAppSecret = PRIVY_APP_SECRET config;
           walletId = opt_walletId options;
           policyIds = opt_policyIds options
       in if \<not> truthy walletId
          then failure ''Wallet ID is required to update a wallet.''
          else if policyIds = None \<or> policyIds = Some []
          then failure ''At least one policy ID is required for wallet updates.''
          else io_bind (updateWallet rem privyAppID privyAppSecret (the walletId)
                          \<lparr>update_policy_ids = the policyIds\<rparr>)
            (\<lambda>walletData.
               io_return
                 \<lparr>success = True,
                  response = ''Successfully updated wallet policies. The wallet now follows the specified compliance policies.'',
                  data = Some (WalletData walletData)\<rparr>))"

definition update_wallet_catch :: "error \<Rightarrow> ActionResult io" where
  "update_wallet_catch e = failure (''Error updating wallet: '' @ message e)"

subsection \<open>PRIVY_GET_WALLETS\<close>

definition wallet_line :: "PrivyCreateWalletResponse \<Rightarrow> string" where
  "wallet_line wallet =
     ''Wallet '' @ wallet_id wallet @ '': '' @ address wallet @ '' ('' @
     wallet_chain_type wallet @ '')''"

definition get_wallets_try :: try_block where
  "get_wallets_try this_config runtime options rem =
     io_bind (io_lift (validatePrivyConfig runtime)) (\<lambda>config.
       let privyAppID = PRIVY_APP_ID config;
           privyAppSecret = PRIVY_APP_SECRET config
       in io_bind (getWallets rem privyAppID privyAppSecret)
            (\<lambda>walletsData.
               if walletsData = []
               then io_return
                      \<lparr>success = True,
                       response = ''No wallets found. You can create a new wallet with the PRIVY_CREATE_WALLET action.'',
                       data = None\<rparr>
               else
                 let walletList = join [CHR 0x0A] (map wallet_line walletsData)
                 in io_return
                      \<lparr>success = True,
                       response = ''Here are your available wallets:'' @ [CHR 0x0A] @ walletList,
                       data = Some (WalletsData walletsData)\<rparr>))"

definition get_wallets_catch :: "error \<Rightarrow> ActionResult io" where
  "get_wallets_catch e = failure (''Error retrieving wallets: '' @ message e)"

subsection \<open>PRIVY_SEND_TRANSACTION\<close>

definition send_transaction_try :: try_block where
  "send_transaction_try this_config runtime options rem =
     io_bind (io_lift (validatePrivyConfig runtime)) (\<lambda>config.
       let privyAppID = PRIVY_APP_ID config;
           privyAppSecret = PRIVY_APP_SECRET config;
           walletId = opt_walletId options;
           recipient = opt_to options;
           amount = opt_value options;
           payload = opt_data options
       in if \<not> truthy walletId \<or> \<not> truthy recipient \<or> \<not> truthy amount
          then failure ''Wallet ID, recipient address, and value are required for transactions.''
          else io_bind (sendTransaction rem privyAppID privyAppSecret
                          \<lparr>tx_wallet_id = the walletId, to = the recipient,
                           tx_value = the amount, tx_data = payload\<rparr>)
            (\<lambda>txData.
               io_return
                 \<lparr>success = True,
                  response = ''Transaction sent successfully! Transaction hash: '' @ hash txData,
                  data = Some (TransactionData txData)\<rparr>))"

definition send_transaction_catch :: "error \<Rightarrow> ActionResult io" where
  "send_transaction_catch e =
     (if str_includes (message e) ''policy'' \<or> str_includes (message e) ''denied''
      then failure (''Transaction failed due to policy restrictions: '' @ message e @
             ''. This transaction may involve tokens or addresses that aren't allowed by your wallet's compliance policies.'')
      else failure (''Error sending transaction: '' @ message e))"

subsection \<open>PRIVY_SIGN_TRANSACTION\<close>

definition sign_transaction_try :: try_block where
  "sign_transaction_try this_config runtime options rem =
     io_bind (io_lift (validatePrivyConfig runtime)) (\<lambda>config.
       let privyAppID = PRIVY_APP_ID config;
           privyAppSecret = PRIVY_APP_SECRET config;
           walletId = opt_walletId options;
           msg = opt_message options
       in if \<not> truthy walletId \<or> \<not> truthy msg
          then failure ''Wallet ID and message are required for signing.''
          else io_bind (signTransaction rem privyAppID privyAppSecret (the walletId) (the msg))
            (\<lambda>signData.
               io_return
                 \<lparr>success = True,
                  response = ''Transaction signed successfully! Signature: '' @ signature signData,
                  data = Some (SignatureData signData)\<rparr>))"

definition sign_transaction_catch :: "error \<Rightarrow> ActionResult io" where
  "sign_transaction_catch e =
     (if str_includes (message e) ''policy'' \<or> str_includes (message e) ''denied''
      then failure (''Signing failed due to policy restrictions: '' @ message e @
             ''. This operation may not be allowed by your wallet's compliance policies.'')
      else failure (''Error signing transaction: '' @ message e))"

subsection \<open>The action list\<close>

definition PRIVY_GET_POLICY :: Action where
  "PRIVY_GET_POLICY = \<lparr>action_name = ''PRIVY_GET_POLICY'', validate = validate_config,
     try_block = get_policy_try, catch_block = get_policy_catch\<rparr>"

definition PRIVY_CREATE_POLICY :: Action where
  "PRIVY_CREATE_POLICY = \<lparr>action_name = ''PRIVY_CREATE_POLICY'', validate = validate_config,
     try_block = create_policy_try, catch_block = create_policy_catch\<rparr>"

definition PRIVY_UPDATE_POLICY :: Action where
  "PRIVY_UPDATE_POLICY = \<lparr>action_name = ''PRIVY_UPDATE_POLICY'', validate = validate_config,
     try_block = update_policy_try, catch_block = update_policy_catch\<rparr>"

definition PRIVY_CREATE_WALLET :: Action where
  "PRIVY_CREATE_WALLET = \<lparr>action_name = ''PRIVY_CREATE_WALLET'', validate = validate_config,
     try_block = create_wallet_try, catch_block = create_wallet_catch\<rparr>"

definition PRIVY_UPDATE_WALLET :: Action where
  "PRIVY_UPDATE_WALLET = \<lparr>action_name = ''PRIVY_UPDATE_WALLET'', validate = validate_config,
     try_block = update_wallet_try, catch_block = update_wallet_catch\<rparr>"

definition PRIVY_GET_WALLETS :: Action where
  "PRIVY_GET_WALLETS = \<lparr>action_name = ''PRIVY_GET_WALLETS'', validate = validate_config,
     try_block = get_wallets_try, catch_block = get_wallets_catch\<rparr>"

definition PRIVY_SEND_TRANSACTION :: Action where
  "PRIVY_SEND_TRANSACTION = \<lparr>action_name = ''PRIVY_SEND_TRANSACTION'', validate = validate_config,
     try_block = send_transaction_try, catch_block = send_transaction_catch\<rparr>"

definition PRIVY_SIGN_TRANSACTION :: Action where
  "PRIVY_SIGN_TRANSACTION = \<lparr>action_name = ''PRIVY_SIGN_TRANSACTION'', validate = validate_config,
     try_block = sign_transaction_try, catch_block = sign_transaction_catch\<rparr>"

definition actions :: "Action list" where
  "actions = [PRIVY_GET_POLICY, PRIVY_CREATE_POLICY, PRIVY_UPDATE_POLICY, PRIVY_CREATE_WALLET,
              PRIVY_UPDATE_WALLET, PRIVY_GET_WALLETS, PRIVY_SEND_TRANSACTION,
              PRIVY_SIGN_TRANSACTION]"

section \<open>The example policy of the specification\<close>

text \<open>
  One MethodRule (\<open>eth_sendTransaction\<close>) whose rule list holds the rule that allows
  USDT at address 0xAAA.
\<close>

definition example_store :: store where
  "example_store =
     \<lparr>objects = [\<lparr>method_name = ''eth_sendTransaction'', rules = 0\<rparr>],
      arrays = [[allow_rule ''USDT'' ''0xAAA'']]\<rparr>"

definition example_policy :: PrivyPolicyResponse where
  "example_policy =
     \<lparr>name = ''DefaultPolicy'', method_rules = Some [0], policy_id = ''pol-1'',
      version = ''1.0'', policy_chain_type = ''ethereum'', default_action = ''DENY''\<rparr>"

section \<open>Example settings, options and remote answers\<close>

definition example_runtime :: IAgentRuntime where
  "example_runtime =
     \<lparr>getSetting = [''PRIVY_APP_ID'' \<mapsto> ''app-id'', ''PRIVY_APP_SECRET'' \<mapsto> ''app-secret'']\<rparr>"

definition no_secret_runtime :: IAgentRuntime where
  "no_secret_runtime =
     \<lparr>getSetting = [''PRIVY_APP_ID'' \<mapsto> ''app-id'', ''PRIVY_APP_SECRET'' \<mapsto> '''']\<rparr>"

definition no_options :: action_options where
  "no_options =
     \<lparr>opt_policyId = None, opt_name = None, opt_tokenName = None, opt_tokenAddress = None,
      opt_remove = None, opt_chainType = None, opt_walletId = None, opt_policyIds = None,
      opt_to = None, opt_value = None, opt_data = None, opt_message = None\<rparr>"

definition example_policy_json :: PolicyJson where
  "example_policy_json =
     \<lparr>json_id = ''pol-1'', json_name = ''DefaultPolicy'', json_version = ''1.0'',
      json_chain_type = ''ethereum'',
      json_method_rules = Some [\<lparr>json_method = ''eth_sendTransaction'',
                                 json_rules = [allow_rule ''USDT'' ''0xAAA'']\<rparr>],
      json_default_action = ''DENY''\<rparr>"

definition example_wallet :: PrivyCreateWalletResponse where
  "example_wallet = \<lparr>wallet_id = ''w-1'', address = ''0x1234'', wallet_chain_type = ''ethereum'',
     wallet_policy_ids = []\<rparr>"

text \<open>A remote API that accepts every request, and one that answers every request with
  the error message "denied".\<close>

definition example_remote :: remote where
  "example_remote =
     \<lparr>post_policies = (\<lambda>r. Ok example_policy_json),
      get_policies_id = (\<lambda>r. Ok example_policy_json),
      patch_policies_id = (\<lambda>r. Ok example_policy_json),
      post_wallets = (\<lambda>r. Ok example_wallet),
      patch_wallets_id = (\<lambda>r. Ok example_wallet),
      get_wallets = (\<lambda>r. Ok [example_wallet]),
      post_transactions = (\<lambda>r. Ok \<lparr>hash = ''0xabc''\<rparr>),
      post_sign = (\<lambda>r. Ok \<lparr>signature = ''0xdef''\<rparr>)\<rparr>"

definition denying_remote :: remote where
  "denying_remote =
     \<lparr>post_policies = (\<lambda>r. NotOk (Some ''denied'') ''Forbidden''),
      get_policies_id = (\<lambda>r. NotOk (Some ''denied'') ''Forbidden''),
      patch_policies_id = (\<lambda>r. NotOk (Some ''denied'') ''Forbidden''),
      post_wallets = (\<lambda>r. NotOk (Some ''denied'') ''Forbidden''),
      patch_wallets_id = (\<lambda>r. NotOk (Some ''denied'') ''Forbidden''),
      get_wallets = (\<lambda>r. NotOk (Some ''denied'') ''Forbidden''),
      post_transactions = (\<lambda>r. NotOk (Some ''denied'') ''Forbidden''),
      post_sign = (\<lambda>r. NotOk (Some ''denied'') ''Forbidden'')\<rparr>"

text \<open>Option bags for the transaction handlers and for wallet creation.\<close>

definition transfer_options :: action_options where
  "transfer_options = no_options\<lparr>opt_walletId := Some ''w-1'', opt_to := Some ''0x99'',
     opt_value := Some ''1'', opt_message := Some ''hello''\<rparr>"

definition monad_options :: action_options where
  "monad_options = no_options\<lparr>opt_chainType := Some ''MoNaD''\<rparr>"

definition empty_chain_options :: action_options where
  "empty_chain_options = no_options\<lparr>opt_chainType := Some ''''\<rparr>"

definition bitcoin_options :: action_options where
  "bitcoin_options = no_options\<lparr>opt_chainType := Some ''Bitcoin''\<rparr>"

section \<open>Properties of the policy rule editor\<close>

lemmas ex_defs = example_store_def example_policy_def allow_rule_def allow_condition_def
  wf_policy_def first_rules_def rules_at_def get_object_def get_array_def

lemma rules_at_push:
  "rules_at s m = Some rs \<Longrightarrow>
   rules_at (array_push s (rules (objects s ! m)) r) m = Some (rs @ [r])"
  by (auto simp: rules_at_def get_object_def get_array_def array_push_def split: if_splits)

lemma rules_at_set_rules_new:
  "rules_at s m = Some rs \<Longrightarrow>
   rules_at (set_rules (fst (new_array s xs)) m (snd (new_array s xs))) m = Some xs"
  by (auto simp: rules_at_def get_object_def get_array_def set_rules_def new_array_def
      split: if_splits)

lemma example_wf: "wf_policy example_store (method_rules example_policy)"
  by (simp add: ex_defs)

lemma example_first_rules:
  "first_rules example_store (method_rules example_policy) = Some [allow_rule ''USDT'' ''0xAAA'']"
  by (simp add: ex_defs)

text \<open>A policy read from a response body is laid out in the store as required.\<close>

lemma parse_policy_wf:
  "wf_policy (fst (parse_policy j)) (method_rules (snd (parse_policy j)))"
  by (cases "json_method_rules j")
     (simp_all add: parse_policy_def wf_policy_def rules_at_def get_object_def get_array_def
        list_all_iff Let_def)

lemma allowlistToken_first:
  assumes "first_rules s (method_rules p) = Some rs"
  shows "allowlistToken s p tn ta =
           Inr (array_push s (rules (objects s ! hd (the (method_rules p)))) (allow_rule tn ta),
                \<lparr>name = name p, method_rules = method_rules p\<rparr>)"
  using assms
  by (auto simp: allowlistToken_def copy_policy_def first_rules_def Let_def
      split: option.splits list.splits)

lemma allowlistToken_no_first:
  assumes "first_rules s (method_rules p) = None" "wf_policy s (method_rules p)"
  shows "allowlistToken s p tn ta =
           Inr (s, \<lparr>name = name p,
                    method_rules = Some (case method_rules p of Some ms \<Rightarrow> ms | None \<Rightarrow> [])\<rparr>)"
  using assms
  by (auto simp: allowlistToken_def copy_policy_def first_rules_def wf_policy_def Let_def
      split: option.splits list.splits)

lemma denylistToken_first:
  assumes "first_rules s (method_rules p) = Some rs"
  shows "denylistToken s p tn ta =
           Inr (set_rules (fst (new_array s (filter (\<lambda>rule. \<not> isTokenRule ta rule) rs)))
                  (hd (the (method_rules p)))
                  (snd (new_array s (filter (\<lambda>rule. \<not> isTokenRule ta rule) rs))),
                \<lparr>name = name p, method_rules = method_rules p\<rparr>)"
  using assms
  by (auto simp: denylistToken_def copy_policy_def first_rules_def Let_def
      split: option.splits list.splits prod.splits)

lemma denylistToken_no_first:
  assumes "first_rules s (method_rules p) = None" "wf_policy s (method_rules p)"
  shows "denylistToken s p tn ta =
           Inr (s, \<lparr>name = name p,
                    method_rules = Some (case method_rules p of Some ms \<Rightarrow> ms | None \<Rightarrow> [])\<rparr>)"
  using assms
  by (auto simp: denylistToken_def copy_policy_def first_rules_def wf_policy_def Let_def
      split: option.splits list.splits)

lemma isTokenRule_iff:
  "isTokenRule ta r \<longleftrightarrow>
     (\<exists>cs c. conditions r = Some cs \<and> c \<in> set cs \<and>
        field_source c = ''ethereum_transaction'' \<and> field c = ''to'' \<and>
        cond_value c = StrVal ta)"
  by (auto simp: isTokenRule_def list_ex_iff split: option.splits)

text \<open>
  Claim C1. For a policy whose MethodRules are objects of the store, \<open>allowlistToken\<close>
  returns a body with the name of the input policy; and when the input has a first
  MethodRule, with rule list \<open>rs\<close> at the time of the call, the rule list of the first
  MethodRule of the body is \<open>rs\<close> followed by one new rule: named "Allowlist " +
  tokenName, with the single condition ethereum_transaction / to / eq / tokenAddress,
  and action ALLOW. The rules of \<open>rs\<close> keep their order.
\<close>

theorem allowlistToken_appends:
  assumes "wf_policy s (method_rules p)"
  shows "\<exists>s' body. allowlistToken s p tokenName tokenAddress = Inr (s', body) \<and>
           name body = name p \<and>
           (\<forall>rs. first_rules s (method_rules p) = Some rs \<longrightarrow>
              first_rules s' (method_rules body) =
                Some (rs @ [\<lparr>rule_name = ''Allowlist '' @ tokenName,
                             conditions = Some [\<lparr>field_source = ''ethereum_transaction'',
                                                 field = ''to'', operator = ''eq'',
                                                 cond_value = StrVal tokenAddress\<rparr>],
                             action = ''ALLOW''\<rparr>]))"
proof (cases "first_rules s (method_rules p)")
  case None
  then show ?thesis using assms by (simp add: allowlistToken_no_first)
next
  case (Some rs)
  then obtain m ms where ms: "method_rules p = Some (m # ms)" and m: "rules_at s m = Some rs"
    by (auto simp: first_rules_def split: option.splits list.splits)
  show ?thesis
    using Some ms m rules_at_push[OF m, of "allow_rule tokenName tokenAddress"]
    by (simp add: allowlistToken_first first_rules_def allow_rule_def allow_condition_def)
qed

theorem allowlistToken_appends_witness:
  "wf_policy example_store (method_rules example_policy) \<and>
   (case allowlistToken example_store example_policy ''USDC'' ''0xBBB'' of
      Inl e \<Rightarrow> False
    | Inr (s', body) \<Rightarrow>
        name body = ''DefaultPolicy'' \<and>
        first_rules s' (method_rules body) =
          Some [allow_rule ''USDT'' ''0xAAA'', allow_rule ''USDC'' ''0xBBB''])"
  using allowlistToken_appends[OF example_wf, of "''USDC''" "''0xBBB''"]
    example_first_rules example_wf
  by (auto simp: allow_rule_def allow_condition_def example_policy_def)

text \<open>
  Claim C2. For a policy whose MethodRules are objects of the store, \<open>denylistToken\<close>
  returns a body whose first MethodRule has the rule list of the input's first
  MethodRule without the rules that have at least one condition with field_source
  "ethereum_transaction", field "to" and value tokenAddress; the other rules keep their
  order. The result is the same for every tokenName.
\<close>

theorem denylistToken_filters:
  assumes "wf_policy s (method_rules p)"
  shows "\<exists>s' body. denylistToken s p tokenName tokenAddress = Inr (s', body) \<and>
           name body = name p \<and>
           (\<forall>rs. first_rules s (method_rules p) = Some rs \<longrightarrow>
              first_rules s' (method_rules body) =
                Some (filter (\<lambda>r. \<not> (\<exists>cs c. conditions r = Some cs \<and> c \<in> set cs \<and>
                                      field_source c = ''ethereum_transaction'' \<and>
                                      field c = ''to'' \<and>
                                      cond_value c = StrVal tokenAddress)) rs)) \<and>
           denylistToken s p otherName tokenAddress = Inr (s', body)"
proof (cases "first_rules s (method_rules p)")
  case None
  then show ?thesis using assms by (simp add: denylistToken_no_first)
next
  case (Some rs)
  then obtain m ms where ms: "method_rules p = Some (m # ms)" and m: "rules_at s m = Some rs"
    by (auto simp: first_rules_def split: option.splits list.splits)
  have eq: "(\<lambda>r. \<not> isTokenRule tokenAddress r) =
            (\<lambda>r. \<not> (\<exists>cs c. conditions r = Some cs \<and> c \<in> set cs \<and>
                     field_source c = ''ethereum_transaction'' \<and> field c = ''to'' \<and>
                     cond_value c = StrVal tokenAddress))"
    by (simp add: isTokenRule_iff)
  show ?thesis
    using Some ms rules_at_set_rules_new[OF m]
    by (simp add: denylistToken_first first_rules_def eq)
qed

theorem denylistToken_filters_witness:
  "wf_policy example_store (method_rules example_policy) \<and>
   (case denylistToken example_store example_policy ''USDT'' ''0xAAA'' of
      Inl e \<Rightarrow> False
    | Inr (s', body) \<Rightarrow>
        name body = ''DefaultPolicy'' \<and> first_rules s' (method_rules body) = Some [] \<and>
        denylistToken example_store example_policy ''some other name'' ''0xAAA'' = Inr (s', body))"
  using denylistToken_filters[OF example_wf, of "''USDT''" "''0xAAA''" "''some other name''"]
    example_first_rules example_wf
  by (auto simp: allow_rule_def allow_condition_def example_policy_def)

text \<open>
  Claim C3 (the code differs). The editor is meant to work on a copy ("Create a deep
  copy of the existing policy"), but the copy is shallow: the MethodRule objects of the
  result are those of the input. After \<open>allowlistToken\<close> the input policy of the
  example shows the new rule in its own first MethodRule, and after \<open>denylistToken\<close>
  its own first MethodRule has lost the rule.
\<close>

theorem editor_mutates_input_policy:
  "first_rules example_store (method_rules example_policy) = Some [allow_rule ''USDT'' ''0xAAA''] \<and>
   (case allowlistToken example_store example_policy ''USDC'' ''0xBBB'' of
      Inl e \<Rightarrow> False
    | Inr (s', body) \<Rightarrow>
        first_rules s' (method_rules example_policy) =
          Some [allow_rule ''USDT'' ''0xAAA'', allow_rule ''USDC'' ''0xBBB'']) \<and>
   (case denylistToken example_store example_policy ''USDT'' ''0xAAA'' of
      Inl e \<Rightarrow> False
    | Inr (s', body) \<Rightarrow> first_rules s' (method_rules example_policy) = Some [])"
  by (simp add: allowlistToken_def denylistToken_def copy_policy_def array_push_def
      new_array_def set_rules_def isTokenRule_def ex_defs)

text \<open>
  Claim C4. For a policy whose \<open>method_rules\<close> list is empty, both operations return
  the name of the policy and an empty \<open>method_rules\<close> list, raise no error, and leave the
  store as it was: no rule list is created.
\<close>

theorem empty_method_rules_noop:
  assumes "method_rules p = Some []"
  shows "allowlistToken s p tokenName tokenAddress =
           Inr (s, \<lparr>name = name p, method_rules = Some []\<rparr>) \<and>
         denylistToken s p tokenName tokenAddress =
           Inr (s, \<lparr>name = name p, method_rules = Some []\<rparr>)"
  using assms by (simp add: allowlistToken_def denylistToken_def copy_policy_def)

theorem empty_method_rules_noop_witness:
  "method_rules (example_policy\<lparr>method_rules := Some []\<rparr>) = Some [] \<and>
   allowlistToken example_store (example_policy\<lparr>method_rules := Some []\<rparr>) ''USDC'' ''0xBBB'' =
     Inr (example_store, \<lparr>name = ''DefaultPolicy'', method_rules = Some []\<rparr>) \<and>
   denylistToken example_store (example_policy\<lparr>method_rules := Some []\<rparr>) ''USDC'' ''0xBBB'' =
     Inr (example_store, \<lparr>name = ''DefaultPolicy'', method_rules = Some []\<rparr>)"
  using empty_method_rules_noop[of "example_policy\<lparr>method_rules := Some []\<rparr>"
      example_store "''USDC''" "''0xBBB''"]
  by (simp add: example_policy_def)

text \<open>
  Claim C5. For a policy with a first MethodRule, with rule list \<open>rs\<close>, allowlisting the
  same token name and address twice (the second time on the policy as the first call
  left it) gives the rule list \<open>rs\<close> followed by two entries of the same rule, each
  with the condition on tokenAddress. The second call changes the list again: there is
  no deduplication and the operation is not idempotent.
\<close>

theorem allowlistToken_twice_duplicates:
  assumes "first_rules s (method_rules p) = Some rs"
  shows "\<exists>s1 b1 s2 b2.
           allowlistToken s p tokenName tokenAddress = Inr (s1, b1) \<and>
           allowlistToken s1 (p\<lparr>name := name b1, method_rules := method_rules b1\<rparr>)
             tokenName tokenAddress = Inr (s2, b2) \<and>
           first_rules s1 (method_rules b1) = Some (rs @ [allow_rule tokenName tokenAddress]) \<and>
           first_rules s2 (method_rules b2) =
             Some (rs @ [allow_rule tokenName tokenAddress, allow_rule tokenName tokenAddress]) \<and>
           conditions (allow_rule tokenName tokenAddress) =
             Some [\<lparr>field_source = ''ethereum_transaction'', field = ''to'', operator = ''eq'',
                    cond_value = StrVal tokenAddress\<rparr>] \<and>
           first_rules s2 (method_rules b2) \<noteq> first_rules s1 (method_rules b1)"
proof -
  from assms obtain m ms where ms: "method_rules p = Some (m # ms)" and m: "rules_at s m = Some rs"
    by (auto simp: first_rules_def split: option.splits list.splits)
  let ?r = "allow_rule tokenName tokenAddress"
  let ?s1 = "array_push s (rules (objects s ! m)) ?r"
  have m1: "rules_at ?s1 m = Some (rs @ [?r])"
    by (rule rules_at_push[OF m])
  let ?s2 = "array_push ?s1 (rules (objects ?s1 ! m)) ?r"
  have m2: "rules_at ?s2 m = Some ((rs @ [?r]) @ [?r])"
    by (rule rules_at_push[OF m1])
  have c1: "allowlistToken s p tokenName tokenAddress =
              Inr (?s1, \<lparr>name = name p, method_rules = method_rules p\<rparr>)"
    using allowlistToken_first[OF assms] ms by simp
  have fr1: "first_rules ?s1 (method_rules (p\<lparr>name := name p, method_rules := method_rules p\<rparr>))
               = Some (rs @ [?r])"
    using ms m1 by (simp add: first_rules_def)
  have c2: "allowlistToken ?s1 (p\<lparr>name := name p, method_rules := method_rules p\<rparr>)
              tokenName tokenAddress
              = Inr (?s2, \<lparr>name = name p, method_rules = method_rules p\<rparr>)"
    using allowlistToken_first[OF fr1] ms by simp
  show ?thesis
    using c1 c2 m1 m2 ms
    by (simp add: first_rules_def allow_rule_def allow_condition_def)
qed

theorem allowlistToken_twice_duplicates_witness:
  "first_rules example_store (method_rules example_policy) = Some [allow_rule ''USDT'' ''0xAAA''] \<and>
   (case allowlistToken example_store example_policy ''USDC'' ''0xBBB'' of
      Inl e \<Rightarrow> False
    | Inr (s1, b1) \<Rightarrow>
       (case allowlistToken s1 (example_policy\<lparr>name := name b1, method_rules := method_rules b1\<rparr>)
               ''USDC'' ''0xBBB'' of
          Inl e \<Rightarrow> False
        | Inr (s2, b2) \<Rightarrow>
            first_rules s2 (method_rules b2) =
              Some [allow_rule ''USDT'' ''0xAAA'', allow_rule ''USDC'' ''0xBBB'',
                    allow_rule ''USDC'' ''0xBBB'']))"
  using allowlistToken_twice_duplicates[OF example_first_rules, of "''USDC''" "''0xBBB''"]
    example_first_rules
  by auto

section \<open>Properties of the configuration check and of the handlers\<close>

lemmas action_defs = PRIVY_GET_POLICY_def PRIVY_CREATE_POLICY_def PRIVY_UPDATE_POLICY_def
  PRIVY_CREATE_WALLET_def PRIVY_UPDATE_WALLET_def PRIVY_GET_WALLETS_def
  PRIVY_SEND_TRANSACTION_def PRIVY_SIGN_TRANSACTION_def

lemmas try_defs = get_policy_try_def create_policy_try_def update_policy_try_def
  create_wallet_try_def update_wallet_try_def get_wallets_try_def send_transaction_try_def
  sign_transaction_try_def

lemmas catch_defs = get_policy_catch_def create_policy_catch_def update_policy_catch_def
  create_wallet_catch_def update_wallet_catch_def get_wallets_catch_def
  send_transaction_catch_def sign_transaction_catch_def

lemma str_includes_iff: "str_includes s p \<longleftrightarrow> (\<exists>pre suf. s = pre @ p @ suf)"
proof (induction s)
  case Nil
  then show ?case by auto
next
  case (Cons c cs)
  show ?case
  proof
    assume "str_includes (c # cs) p"
    then consider "take (length p) (c # cs) = p" | "str_includes cs p" by auto
    then show "\<exists>pre suf. c # cs = pre @ p @ suf"
    proof cases
      case 1
      then have "c # cs = [] @ p @ drop (length p) (c # cs)"
        by (metis append_Nil append_take_drop_id)
      then show ?thesis by blast
    next
      case 2
      then obtain pre suf where "cs = pre @ p @ suf" using Cons.IH by auto
      then have "c # cs = (c # pre) @ p @ suf" by simp
      then show ?thesis by blast
    qed
  next
    assume "\<exists>pre suf. c # cs = pre @ p @ suf"
    then obtain pre suf where e: "c # cs = pre @ p @ suf" by auto
    show "str_includes (c # cs) p"
    proof (cases pre)
      case Nil
      then have "take (length p) (c # cs) = p" using e by (metis append_Nil append_eq_conv_conj)
      then show ?thesis by simp
    next
      case (Cons a pre')
      then have "cs = pre' @ p @ suf" using e by simp
      then have "str_includes cs p" using Cons.IH by blast
      then show ?thesis by simp
    qed
  qed
qed

lemma failure_form: "failure (pre @ m @ suf) = ([], Inr \<lparr>success = False, response = pre @ m @ suf, data = None\<rparr>)"
  by (simp add: failure_def io_return_def)

lemma catch_block_form:
  assumes "a \<in> set actions"
  shows "\<exists>pre suf. catch_block a e =
           ([], Inr \<lparr>success = False, response = pre @ message e @ suf, data = None\<rparr>)"
proof -
  have f0: "\<exists>p s. failure (pre @ message e) =
           ([], Inr \<lparr>success = False, response = p @ message e @ s, data = None\<rparr>)" for pre
    by (rule exI[of _ pre], rule exI[of _ "[]"]) (simp add: failure_def io_return_def)
  have f1: "\<exists>p s. failure (pre @ message e @ suf) =
           ([], Inr \<lparr>success = False, response = p @ message e @ s, data = None\<rparr>)" for pre suf
    by (rule exI[of _ pre], rule exI[of _ suf]) (simp add: failure_def io_return_def)
  from assms consider "a = PRIVY_GET_POLICY" | "a = PRIVY_CREATE_POLICY" | "a = PRIVY_UPDATE_POLICY"
    | "a = PRIVY_CREATE_WALLET" | "a = PRIVY_UPDATE_WALLET" | "a = PRIVY_GET_WALLETS"
    | "a = PRIVY_SEND_TRANSACTION" | "a = PRIVY_SIGN_TRANSACTION"
    by (auto simp: actions_def)
  then show ?thesis
  proof cases
    case 1 then show ?thesis using f0[of "''Error retrieving policy: ''"] by (simp add: PRIVY_GET_POLICY_def get_policy_catch_def)
  next
    case 2 then show ?thesis using f0[of "''Error creating policy: ''"] by (simp add: PRIVY_CREATE_POLICY_def create_policy_catch_def)
  next
    case 3 then show ?thesis using f0[of "''Error updating policy: ''"] by (simp add: PRIVY_UPDATE_POLICY_def update_policy_catch_def)
  next
    case 4 then show ?thesis using f0[of "''Error creating wallet: ''"] by (simp add: PRIVY_CREATE_WALLET_def create_wallet_catch_def)
  next
    case 5 then show ?thesis using f0[of "''Error updating wallet: ''"] by (simp add: PRIVY_UPDATE_WALLET_def update_wallet_catch_def)
  next
    case 6 then show ?thesis using f0[of "''Error retrieving wallets: ''"] by (simp add: PRIVY_GET_WALLETS_def get_wallets_catch_def)
  next
    case 7 then show ?thesis
      using f0[of "''Error sending transaction: ''"]
        f1[of "''Transaction failed due to policy restrictions: ''"
              "''. This transaction may involve tokens or addresses that aren't allowed by your wallet's compliance policies.''"]
      by (simp add: PRIVY_SEND_TRANSACTION_def send_transaction_catch_def)
  next
    case 8 then show ?thesis
      using f0[of "''Error signing transaction: ''"]
        f1[of "''Signing failed due to policy restrictions: ''"
              "''. This operation may not be allowed by your wallet's compliance policies.''"]
      by (simp add: PRIVY_SIGN_TRANSACTION_def sign_transaction_catch_def)
  qed
qed

lemma try_block_config_error:
  assumes "a \<in> set actions" "validatePrivyConfig runtime = Inl e"
  shows "try_block a c runtime options rem = ([], Inl e)"
  using assms
  by (auto simp: actions_def action_defs try_defs io_bind_def io_lift_def)


lemmas io_defs = io_bind_def io_lift_def io_return_def io_throw_def try_catch_def failure_def
  fetch_json_def handler_def

lemmas example_defs = example_runtime_def no_secret_runtime_def no_options_def
  example_remote_def denying_remote_def example_wallet_def DEFAULT_CONFIG_def


text \<open>
  Claim C6. \<open>validatePrivyConfig\<close> fails with an error when PRIVY_APP_ID or
  PRIVY_APP_SECRET is absent or empty (so also when only the secret is missing), and then
  every handler returns a failure without having sent a request. When both are set, the
  configuration is returned, and an optional setting that is absent is absent in it.
\<close>

theorem validatePrivyConfig_required:
  "(\<not> truthy (getSetting runtime ''PRIVY_APP_ID'') \<or>
    \<not> truthy (getSetting runtime ''PRIVY_APP_SECRET'') \<longrightarrow>
      (\<exists>e. validatePrivyConfig runtime = Inl e) \<and>
      (\<forall>a \<in> set actions. \<exists>r. handler a c runtime options rem = ([], Inr r) \<and> \<not> success r)) \<and>
   (truthy (getSetting runtime ''PRIVY_APP_ID'') \<and>
    truthy (getSetting runtime ''PRIVY_APP_SECRET'') \<longrightarrow>
      (\<exists>config. validatePrivyConfig runtime = Inr config \<and>
         (getSetting runtime ''PRIVY_MONAD_RPC_URL'' = None \<longrightarrow> PRIVY_MONAD_RPC_URL config = None) \<and>
         (getSetting runtime ''PRIVY_MONAD_CHAIN_ID'' = None \<longrightarrow> PRIVY_MONAD_CHAIN_ID config = None)))"
proof (intro conjI impI)
  assume bad: "\<not> truthy (getSetting runtime ''PRIVY_APP_ID'') \<or>
    \<not> truthy (getSetting runtime ''PRIVY_APP_SECRET'')"
  then show ex: "\<exists>e. validatePrivyConfig runtime = Inl e"
    by (cases "truthy (getSetting runtime ''PRIVY_APP_ID'')")
       (simp_all add: validatePrivyConfig_def Let_def)
  then obtain e where e: "validatePrivyConfig runtime = Inl e" by blast
  show "\<forall>a \<in> set actions. \<exists>r. handler a c runtime options rem = ([], Inr r) \<and> \<not> success r"
  proof
    fix a assume a: "a \<in> set actions"
    obtain pre suf where "catch_block a e =
        ([], Inr \<lparr>success = False, response = pre @ message e @ suf, data = None\<rparr>)"
      using catch_block_form[OF a] by blast
    then show "\<exists>r. handler a c runtime options rem = ([], Inr r) \<and> \<not> success r"
      using try_block_config_error[OF a e] by (simp add: handler_def try_catch_def)
  qed
next
  assume "truthy (getSetting runtime ''PRIVY_APP_ID'') \<and>
    truthy (getSetting runtime ''PRIVY_APP_SECRET'')"
  then show "\<exists>config. validatePrivyConfig runtime = Inr config \<and>
         (getSetting runtime ''PRIVY_MONAD_RPC_URL'' = None \<longrightarrow> PRIVY_MONAD_RPC_URL config = None) \<and>
         (getSetting runtime ''PRIVY_MONAD_CHAIN_ID'' = None \<longrightarrow> PRIVY_MONAD_CHAIN_ID config = None)"
    by (simp add: validatePrivyConfig_def Let_def js_or_def truthy_def)
qed

theorem validatePrivyConfig_required_witness:
  "truthy (getSetting no_secret_runtime ''PRIVY_APP_ID'') \<and>
   \<not> truthy (getSetting no_secret_runtime ''PRIVY_APP_SECRET'') \<and>
   validatePrivyConfig no_secret_runtime = Inl (Error ''Privy App Secret is required'') \<and>
   list_all (\<lambda>a. fst (handler a DEFAULT_CONFIG no_secret_runtime no_options example_remote) = [])
     actions \<and>
   truthy (getSetting example_runtime ''PRIVY_APP_ID'') \<and>
   truthy (getSetting example_runtime ''PRIVY_APP_SECRET'') \<and>
   getSetting example_runtime ''PRIVY_MONAD_RPC_URL'' = None \<and>
   getSetting example_runtime ''PRIVY_MONAD_CHAIN_ID'' = None \<and>
   validatePrivyConfig example_runtime =
     Inr \<lparr>PRIVY_APP_ID = ''app-id'', PRIVY_APP_SECRET = ''app-secret'',
          PRIVY_MONAD_RPC_URL = None, PRIVY_MONAD_CHAIN_ID = None\<rparr>"
proof -
  have s1: "truthy (getSetting no_secret_runtime ''PRIVY_APP_ID'')"
    and s2: "\<not> truthy (getSetting no_secret_runtime ''PRIVY_APP_SECRET'')"
    and s3: "truthy (getSetting example_runtime ''PRIVY_APP_ID'')"
    and s4: "truthy (getSetting example_runtime ''PRIVY_APP_SECRET'')"
    and s5: "getSetting example_runtime ''PRIVY_MONAD_RPC_URL'' = None"
    and s6: "getSetting example_runtime ''PRIVY_MONAD_CHAIN_ID'' = None"
    by (simp_all add: truthy_def example_defs)
  have v1: "validatePrivyConfig no_secret_runtime = Inl (Error ''Privy App Secret is required'')"
    by (simp add: validatePrivyConfig_def truthy_def example_defs)
  have v2: "validatePrivyConfig example_runtime =
     Inr \<lparr>PRIVY_APP_ID = ''app-id'', PRIVY_APP_SECRET = ''app-secret'',
          PRIVY_MONAD_RPC_URL = None, PRIVY_MONAD_CHAIN_ID = None\<rparr>"
    by (simp add: validatePrivyConfig_def truthy_def js_or_def example_defs)
  have all: "\<forall>a \<in> set actions. \<exists>r. handler a DEFAULT_CONFIG no_secret_runtime no_options example_remote
          = ([], Inr r) \<and> \<not> success r"
    using validatePrivyConfig_required[of no_secret_runtime DEFAULT_CONFIG no_options example_remote] s2
    by blast
  have "\<exists>config. validatePrivyConfig example_runtime = Inr config \<and>
          PRIVY_MONAD_RPC_URL config = None \<and> PRIVY_MONAD_CHAIN_ID config = None"
    using validatePrivyConfig_required[of example_runtime DEFAULT_CONFIG no_options example_remote]
      s3 s4 s5 s6
    by blast
  from all have h: "list_all (\<lambda>a. fst (handler a DEFAULT_CONFIG no_secret_runtime no_options example_remote) = [])
     actions"
    by (auto simp: list_all_iff)
  show ?thesis using s1 s2 s3 s4 s5 s6 v1 v2 h by simp
qed

lemma io_bind_Inr:
  "io_bind m f = (t, Inr r) \<longleftrightarrow>
     (\<exists>t1 x t2. m = (t1, Inr x) \<and> f x = (t2, Inr r) \<and> t = t1 @ t2)"
  by (cases m; cases "snd m") (auto simp: io_bind_def split: prod.splits)

lemma io_lift_Inr: "io_lift v = (t, Inr x) \<longleftrightarrow> t = [] \<and> v = Inr x"
  by (auto simp: io_lift_def)

lemma failure_Inr: "failure txt = (t, Inr r) \<longleftrightarrow>
    t = [] \<and> r = \<lparr>success = False, response = txt, data = None\<rparr>"
  by (auto simp: failure_def io_return_def)

lemma io_return_Inr: "io_return v = (t, Inr r) \<longleftrightarrow> t = [] \<and> r = v"
  by (auto simp: io_return_def)

lemma io_throw_Inr: "io_throw e \<noteq> (t, Inr r)"
  by (simp add: io_throw_def)

lemmas inr_simps = io_bind_Inr io_lift_Inr failure_Inr io_return_Inr io_throw_Inr

lemma validation_failure_get_policy:
  "get_policy_try c runtime options rem = (t, Inr r) \<Longrightarrow> \<not> success r \<Longrightarrow> t = [] \<and> data r = None"
  by (auto simp: get_policy_try_def inr_simps Let_def split: if_splits option.splits)

lemma validation_failure_create_policy:
  "create_policy_try c runtime options rem = (t, Inr r) \<Longrightarrow> \<not> success r \<Longrightarrow> t = [] \<and> data r = None"
  by (auto simp: create_policy_try_def inr_simps Let_def split: if_splits option.splits)

lemma validation_failure_update_policy:
  "update_policy_try c runtime options rem = (t, Inr r) \<Longrightarrow> \<not> success r \<Longrightarrow> t = [] \<and> data r = None"
  by (auto simp: update_policy_try_def inr_simps Let_def split: if_splits option.splits)

lemma validation_failure_create_wallet:
  "create_wallet_try c runtime options rem = (t, Inr r) \<Longrightarrow> \<not> success r \<Longrightarrow> t = [] \<and> data r = None"
  by (auto simp: create_wallet_try_def inr_simps Let_def split: if_splits option.splits)

lemma validation_failure_update_wallet:
  "update_wallet_try c runtime options rem = (t, Inr r) \<Longrightarrow> \<not> success r \<Longrightarrow> t = [] \<and> data r = None"
  by (auto simp: update_wallet_try_def inr_simps Let_def split: if_splits option.splits)

lemma validation_failure_get_wallets:
  "get_wallets_try c runtime options rem = (t, Inr r) \<Longrightarrow> \<not> success r \<Longrightarrow> t = [] \<and> data r = None"
  by (auto simp: get_wallets_try_def inr_simps Let_def split: if_splits option.splits)

lemma validation_failure_send_transaction:
  "send_transaction_try c runtime options rem = (t, Inr r) \<Longrightarrow> \<not> success r \<Longrightarrow> t = [] \<and> data r = None"
  by (auto simp: send_transaction_try_def inr_simps Let_def split: if_splits option.splits)

lemma validation_failure_sign_transaction:
  "sign_transaction_try c runtime options rem = (t, Inr r) \<Longrightarrow> \<not> success r \<Longrightarrow> t = [] \<and> data r = None"
  by (auto simp: sign_transaction_try_def inr_simps Let_def split: if_splits option.splits)

lemma validation_failure:
  assumes "a \<in> set actions" "try_block a c runtime options rem = (t, Inr r)" "\<not> success r"
  shows "t = [] \<and> data r = None"
  using assms validation_failure_get_policy validation_failure_create_policy
    validation_failure_update_policy validation_failure_create_wallet
    validation_failure_update_wallet validation_failure_get_wallets
    validation_failure_send_transaction validation_failure_sign_transaction
  by (auto simp: actions_def action_defs)

text \<open>
  Claim C7. Each of the eight handlers returns a result and never throws. Whenever its
  \<open>try\<close> block throws an error (a configuration error, an error of a service, a remote
  API error), the handler returns \<open>success = False\<close>, no data, and a response text that
  contains the message of the error. A failure that the \<open>try\<close> block returns itself (a
  required option is missing) is the handler's result as it is: \<open>success = False\<close> with
  a response text, no data, and no request sent.
\<close>

theorem handlers_convert_errors:
  assumes "a \<in> set actions"
  shows "(\<exists>t r. handler a c runtime options rem = (t, Inr r)) \<and>
         (\<forall>t e. try_block a c runtime options rem = (t, Inl e) \<longrightarrow>
            (\<exists>pre suf. handler a c runtime options rem =
               (t, Inr \<lparr>success = False, response = pre @ message e @ suf, data = None\<rparr>))) \<and>
         (\<forall>t r. try_block a c runtime options rem = (t, Inr r) \<and> \<not> success r \<longrightarrow>
            handler a c runtime options rem = ([], Inr r) \<and> data r = None)"
proof -
  obtain t x where tb: "try_block a c runtime options rem = (t, x)"
    by (cases "try_block a c runtime options rem")
  show ?thesis
  proof (cases x)
    case (Inl e)
    obtain pre suf where "catch_block a e =
        ([], Inr \<lparr>success = False, response = pre @ message e @ suf, data = None\<rparr>)"
      using catch_block_form[OF assms] by blast
    then have "handler a c runtime options rem =
        (t, Inr \<lparr>success = False, response = pre @ message e @ suf, data = None\<rparr>)"
      using tb Inl by (simp add: handler_def try_catch_def)
    then show ?thesis using tb Inl by auto
  next
    case (Inr r)
    have h: "handler a c runtime options rem = (t, Inr r)"
      using tb Inr by (simp add: handler_def try_catch_def)
    have "t = [] \<and> data r = None" if "\<not> success r"
      using validation_failure[OF assms _ that] tb Inr by simp
    then show ?thesis using tb Inr h by auto
  qed
qed

theorem handlers_convert_errors_witness:
  "PRIVY_CREATE_WALLET \<in> set actions \<and>
   snd (try_block PRIVY_CREATE_WALLET DEFAULT_CONFIG example_runtime no_options denying_remote) =
     Inl (Error ''denied'') \<and>
   snd (handler PRIVY_CREATE_WALLET DEFAULT_CONFIG example_runtime no_options denying_remote) =
     Inr \<lparr>success = False, response = ''Error creating wallet: denied'', data = None\<rparr> \<and>
   PRIVY_UPDATE_WALLET \<in> set actions \<and>
   handler PRIVY_UPDATE_WALLET DEFAULT_CONFIG example_runtime no_options example_remote =
     ([], Inr \<lparr>success = False, response = ''Wallet ID is required to update a wallet.'',
               data = None\<rparr>)"
proof -
  have mem: "PRIVY_CREATE_WALLET \<in> set actions" by (simp add: actions_def)
  have mem2: "PRIVY_UPDATE_WALLET \<in> set actions" by (simp add: actions_def)
  have tb2: "try_block PRIVY_UPDATE_WALLET DEFAULT_CONFIG example_runtime no_options example_remote =
     ([], Inr \<lparr>success = False, response = ''Wallet ID is required to update a wallet.'',
               data = None\<rparr>)"
    by (simp add: PRIVY_UPDATE_WALLET_def update_wallet_try_def validatePrivyConfig_def
        truthy_def js_or_def io_defs example_defs)
  have h2: "handler PRIVY_UPDATE_WALLET DEFAULT_CONFIG example_runtime no_options example_remote =
     ([], Inr \<lparr>success = False, response = ''Wallet ID is required to update a wallet.'',
               data = None\<rparr>)"
    using handlers_convert_errors[OF mem2, of DEFAULT_CONFIG example_runtime no_options
        example_remote] tb2
    by simp
  have tb: "snd (try_block PRIVY_CREATE_WALLET DEFAULT_CONFIG example_runtime no_options denying_remote) =
     Inl (Error ''denied'')"
    by (simp add: PRIVY_CREATE_WALLET_def create_wallet_try_def validatePrivyConfig_def
        createWallet_def truthy_def js_or_def js_or_str_def io_defs example_defs)
  have h: "snd (handler PRIVY_CREATE_WALLET DEFAULT_CONFIG example_runtime no_options denying_remote) =
     Inr \<lparr>success = False, response = ''Error creating wallet: denied'', data = None\<rparr>"
    using tb
    by (cases "try_block PRIVY_CREATE_WALLET DEFAULT_CONFIG example_runtime no_options denying_remote")
       (simp add: handler_def try_catch_def PRIVY_CREATE_WALLET_def create_wallet_catch_def
          failure_def io_return_def)
  from handlers_convert_errors[OF mem, of DEFAULT_CONFIG example_runtime no_options denying_remote]
  show ?thesis using mem tb h mem2 h2 by simp
qed

lemma handler_catch:
  "try_block a c runtime options rem = (t, Inl e) \<Longrightarrow> catch_block a e = ([], r) \<Longrightarrow>
   handler a c runtime options rem = (t, r)"
  by (simp add: handler_def try_catch_def)

lemmas wallet_defs = PRIVY_CREATE_WALLET_def create_wallet_try_def create_wallet_catch_def
  createWallet_def io_defs

text \<open>
  Claim C8, as stated for every handler, fails: the handler of PRIVY_CREATE_WALLET, given
  a remote error with the message "denied", answers with its generic wording, which
  mentions neither policies nor compliance.
\<close>

theorem policy_rewording_counterexample:
  "snd (try_block PRIVY_CREATE_WALLET DEFAULT_CONFIG example_runtime no_options denying_remote) =
     Inl (Error ''denied'') \<and>
   str_includes (message (Error ''denied'')) ''denied'' \<and>
   snd (handler PRIVY_CREATE_WALLET DEFAULT_CONFIG example_runtime no_options denying_remote) =
     Inr \<lparr>success = False, response = ''Error creating wallet: denied'', data = None\<rparr> \<and>
   \<not> str_includes ''Error creating wallet: denied'' ''polic'' \<and>
   \<not> str_includes ''Error creating wallet: denied'' ''complian''"
  by (simp add: PRIVY_CREATE_WALLET_def create_wallet_try_def create_wallet_catch_def
      validatePrivyConfig_def createWallet_def truthy_def js_or_def js_or_str_def io_defs
      example_defs)

text \<open>
  Claim C8, amended. When the \<open>try\<close> block of the PRIVY_SEND_TRANSACTION or of the
  PRIVY_SIGN_TRANSACTION handler throws an error whose message contains "policy" or
  "denied", the handler returns \<open>success = False\<close> with the text that names the policy
  restrictions and the wallet's compliance policies.
\<close>

theorem transaction_handlers_reword_policy_errors:
  assumes "(\<exists>pre suf. message e = pre @ ''policy'' @ suf) \<or>
           (\<exists>pre suf. message e = pre @ ''denied'' @ suf)"
  shows "(try_block PRIVY_SEND_TRANSACTION c runtime options rem = (t, Inl e) \<longrightarrow>
            handler PRIVY_SEND_TRANSACTION c runtime options rem =
              (t, Inr \<lparr>success = False,
                       response = ''Transaction failed due to policy restrictions: '' @ message e @
                         ''. This transaction may involve tokens or addresses that aren't allowed by your wallet's compliance policies.'',
                       data = None\<rparr>)) \<and>
         (try_block PRIVY_SIGN_TRANSACTION c runtime options rem = (t, Inl e) \<longrightarrow>
            handler PRIVY_SIGN_TRANSACTION c runtime options rem =
              (t, Inr \<lparr>success = False,
                       response = ''Signing failed due to policy restrictions: '' @ message e @
                         ''. This operation may not be allowed by your wallet's compliance policies.'',
                       data = None\<rparr>))"
proof -
  from assms have inc: "str_includes (message e) ''policy'' \<or> str_includes (message e) ''denied''"
    unfolding str_includes_iff by blast
  have c1: "catch_block PRIVY_SEND_TRANSACTION e =
      ([], Inr \<lparr>success = False,
                response = ''Transaction failed due to policy restrictions: '' @ message e @
                  ''. This transaction may involve tokens or addresses that aren't allowed by your wallet's compliance policies.'',
                data = None\<rparr>)"
    using inc
    by (simp add: PRIVY_SEND_TRANSACTION_def send_transaction_catch_def failure_def io_return_def)
  have c2: "catch_block PRIVY_SIGN_TRANSACTION e =
      ([], Inr \<lparr>success = False,
                response = ''Signing failed due to policy restrictions: '' @ message e @
                  ''. This operation may not be allowed by your wallet's compliance policies.'',
                data = None\<rparr>)"
    using inc
    by (simp add: PRIVY_SIGN_TRANSACTION_def sign_transaction_catch_def failure_def io_return_def)
  show ?thesis
    using handler_catch[OF _ c1] handler_catch[OF _ c2] by blast
qed

theorem transaction_handlers_reword_policy_errors_witness:
  "message (Error ''denied'') = [] @ ''denied'' @ [] \<and>
   snd (try_block PRIVY_SEND_TRANSACTION DEFAULT_CONFIG example_runtime transfer_options denying_remote)
     = Inl (Error ''denied'') \<and>
   snd (handler PRIVY_SEND_TRANSACTION DEFAULT_CONFIG example_runtime transfer_options denying_remote)
     = Inr \<lparr>success = False,
            response = ''Transaction failed due to policy restrictions: denied. This transaction may involve tokens or addresses that aren't allowed by your wallet's compliance policies.'',
            data = None\<rparr> \<and>
   snd (try_block PRIVY_SIGN_TRANSACTION DEFAULT_CONFIG example_runtime transfer_options denying_remote)
     = Inl (Error ''denied'') \<and>
   snd (handler PRIVY_SIGN_TRANSACTION DEFAULT_CONFIG example_runtime transfer_options denying_remote)
     = Inr \<lparr>success = False,
            response = ''Signing failed due to policy restrictions: denied. This operation may not be allowed by your wallet's compliance policies.'',
            data = None\<rparr>"
proof -
  have m: "(\<exists>pre suf. message (Error ''denied'') = pre @ ''policy'' @ suf) \<or>
           (\<exists>pre suf. message (Error ''denied'') = pre @ ''denied'' @ suf)"
    by (rule disjI2, rule exI[of _ "[]"], rule exI[of _ "[]"]) simp
  obtain t1 where t1: "try_block PRIVY_SEND_TRANSACTION DEFAULT_CONFIG example_runtime transfer_options
      denying_remote = (t1, Inl (Error ''denied''))"
    by (simp add: PRIVY_SEND_TRANSACTION_def send_transaction_try_def validatePrivyConfig_def
        sendTransaction_def truthy_def js_or_def js_or_str_def io_defs example_defs transfer_options_def)
  obtain t2 where t2: "try_block PRIVY_SIGN_TRANSACTION DEFAULT_CONFIG example_runtime transfer_options
      denying_remote = (t2, Inl (Error ''denied''))"
    by (simp add: PRIVY_SIGN_TRANSACTION_def sign_transaction_try_def validatePrivyConfig_def
        signTransaction_def truthy_def js_or_def js_or_str_def io_defs example_defs transfer_options_def)
  from transaction_handlers_reword_policy_errors[OF m, of DEFAULT_CONFIG example_runtime
      transfer_options denying_remote t1]
    transaction_handlers_reword_policy_errors[OF m, of DEFAULT_CONFIG example_runtime
      transfer_options denying_remote t2] t1 t2
  show ?thesis by simp
qed

text \<open>
  Claim C9. When the chainType option is "monad" in any letter case, every request the
  PRIVY_CREATE_WALLET handler sends is a wallet creation with chain_type "ethereum"; with
  a valid configuration exactly one request is sent; and a successful result describes
  the wallet as a Monad wallet.
\<close>

theorem create_wallet_monad_sends_ethereum:
  assumes "opt_chainType options = Some ct" and "toLowerCase ct = ''monad''"
  shows "(\<forall>req \<in> set (fst (handler PRIVY_CREATE_WALLET c runtime options rem)).
            \<exists>pids. req_body req = CreateWalletBody \<lparr>chain_type = ''ethereum'', policy_ids = pids\<rparr>) \<and>
         (\<forall>config. validatePrivyConfig runtime = Inr config \<longrightarrow>
            length (fst (handler PRIVY_CREATE_WALLET c runtime options rem)) = 1) \<and>
         (\<forall>r. snd (handler PRIVY_CREATE_WALLET c runtime options rem) = Inr r \<and> success r \<longrightarrow>
            (\<exists>w. data r = Some (WalletData w) \<and>
                 response r = ''Successfully created a new Monad wallet with address: '' @
                   address w @ ''. This wallet is compatible with the Monad blockchain.''))"
proof (cases "validatePrivyConfig runtime")
  case (Inl e)
  then show ?thesis
    by (simp add: wallet_defs)
next
  case (Inr config)
  have ch: "js_or_str (map_option toLowerCase (opt_chainType options)) ''ethereum'' = ''monad''"
    using assms by (simp add: js_or_str_def)
  show ?thesis
    using Inr ch
    by (simp add: wallet_defs Let_def split: fetch_result.splits)
qed

theorem create_wallet_monad_sends_ethereum_witness:
  "opt_chainType monad_options = Some ''MoNaD'' \<and> toLowerCase ''MoNaD'' = ''monad'' \<and>
   map req_body (fst (handler PRIVY_CREATE_WALLET DEFAULT_CONFIG example_runtime monad_options
                        example_remote)) =
     [CreateWalletBody \<lparr>chain_type = ''ethereum'', policy_ids = None\<rparr>] \<and>
   snd (handler PRIVY_CREATE_WALLET DEFAULT_CONFIG example_runtime monad_options example_remote) =
     Inr \<lparr>success = True,
          response = ''Successfully created a new Monad wallet with address: 0x1234. This wallet is compatible with the Monad blockchain.'',
          data = Some (WalletData example_wallet)\<rparr>"
proof -
  have a1: "opt_chainType monad_options = Some ''MoNaD''"
    by (simp add: monad_options_def no_options_def)
  have a2: "toLowerCase ''MoNaD'' = ''monad''"
    by (simp add: toLowerCase_def)
  have h: "handler PRIVY_CREATE_WALLET DEFAULT_CONFIG example_runtime monad_options example_remote =
     ([\<lparr>http_method = ''POST'', url = WALLETS_URL,
        headers = service_headers ''app-id'' ''app-secret'',
        req_body = CreateWalletBody \<lparr>chain_type = ''ethereum'', policy_ids = None\<rparr>\<rparr>],
      Inr \<lparr>success = True,
          response = ''Successfully created a new Monad wallet with address: 0x1234. This wallet is compatible with the Monad blockchain.'',
          data = Some (WalletData example_wallet)\<rparr>)"
    by (simp add: wallet_defs validatePrivyConfig_def truthy_def js_or_def js_or_str_def
        with_signature_def toLowerCase_def monad_options_def example_defs)
  from create_wallet_monad_sends_ethereum[OF a1 a2, of DEFAULT_CONFIG example_runtime example_remote]
  show ?thesis using a1 a2 h by simp
qed

text \<open>
  Claim C10, as stated, fails at two inputs. An empty chainType is not one of the three
  names, but it is replaced by the default "ethereum": the wallet is created. And with
  a missing secret the failure message is the configuration error, which does not name
  the chain types.
\<close>

theorem create_wallet_invalid_chain_counterexample:
  "opt_chainType empty_chain_options = Some '''' \<and>
   toLowerCase '''' \<notin> set [''ethereum'', ''solana'', ''monad''] \<and>
   map req_body (fst (handler PRIVY_CREATE_WALLET DEFAULT_CONFIG example_runtime empty_chain_options
                        example_remote)) =
     [CreateWalletBody \<lparr>chain_type = ''ethereum'', policy_ids = None\<rparr>] \<and>
   snd (handler PRIVY_CREATE_WALLET DEFAULT_CONFIG example_runtime empty_chain_options example_remote) =
     Inr \<lparr>success = True,
          response = ''Successfully created a new wallet with address: 0x1234'',
          data = Some (WalletData example_wallet)\<rparr> \<and>
   opt_chainType bitcoin_options = Some ''Bitcoin'' \<and>
   toLowerCase ''Bitcoin'' \<notin> set [''ethereum'', ''solana'', ''monad''] \<and>
   handler PRIVY_CREATE_WALLET DEFAULT_CONFIG no_secret_runtime bitcoin_options example_remote =
     ([], Inr \<lparr>success = False,
               response = ''Error creating wallet: Privy App Secret is required'',
               data = None\<rparr>)"
  by (simp add: wallet_defs validatePrivyConfig_def truthy_def js_or_def js_or_str_def Let_def
      with_signature_def toLowerCase_def empty_chain_options_def bitcoin_options_def example_defs)

text \<open>
  Claim C10, amended. When the chainType option is a non-empty string that, lower-cased,
  is not "ethereum", "solana" or "monad", the PRIVY_CREATE_WALLET handler sends no
  request and returns \<open>success = False\<close>; with a valid configuration the response is the
  message that names the supported chain types.
\<close>

theorem create_wallet_rejects_unknown_chain:
  assumes "opt_chainType options = Some ct" and "ct \<noteq> []"
    and "toLowerCase ct \<notin> set [''ethereum'', ''solana'', ''monad'']"
  shows "fst (handler PRIVY_CREATE_WALLET c runtime options rem) = [] \<and>
         (\<exists>r. snd (handler PRIVY_CREATE_WALLET c runtime options rem) = Inr r \<and> \<not> success r \<and>
            (\<forall>config. validatePrivyConfig runtime = Inr config \<longrightarrow>
               response r = ''Invalid chain type. Supported chain types are: ethereum, solana, monad.''))"
proof (cases "validatePrivyConfig runtime")
  case (Inl e)
  then show ?thesis
    by (simp add: wallet_defs)
next
  case (Inr config)
  have ne: "toLowerCase ct \<noteq> []" using assms(2) by (simp add: toLowerCase_def)
  have ch: "js_or_str (map_option toLowerCase (opt_chainType options)) ''ethereum'' = toLowerCase ct"
    using assms(1) ne by (simp add: js_or_str_def)
  show ?thesis
    using Inr ch assms(3)
    by (simp add: wallet_defs Let_def)
qed

theorem create_wallet_rejects_unknown_chain_witness:
  "opt_chainType bitcoin_options = Some ''Bitcoin'' \<and> ''Bitcoin'' \<noteq> [] \<and>
   toLowerCase ''Bitcoin'' \<notin> set [''ethereum'', ''solana'', ''monad''] \<and>
   handler PRIVY_CREATE_WALLET DEFAULT_CONFIG example_runtime bitcoin_options example_remote =
     ([], Inr \<lparr>success = False,
               response = ''Invalid chain type. Supported chain types are: ethereum, solana, monad.'',
               data = None\<rparr>)"
proof -
  have a1: "opt_chainType bitcoin_options = Some ''Bitcoin''"
    by (simp add: bitcoin_options_def no_options_def)
  have a2: "''Bitcoin'' \<noteq> []" by simp
  have a3: "toLowerCase ''Bitcoin'' \<notin> set [''ethereum'', ''solana'', ''monad'']"
    by (simp add: toLowerCase_def)
  have h: "handler PRIVY_CREATE_WALLET DEFAULT_CONFIG example_runtime bitcoin_options example_remote =
     ([], Inr \<lparr>success = False,
               response = ''Invalid chain type. Supported chain types are: ethereum, solana, monad.'',
               data = None\<rparr>)"
    by (simp add: wallet_defs validatePrivyConfig_def truthy_def js_or_def js_or_str_def Let_def
        toLowerCase_def bitcoin_options_def example_defs)
  from create_wallet_rejects_unknown_chain[OF a1 a2 a3, of DEFAULT_CONFIG example_runtime example_remote]
  show ?thesis using a1 a2 a3 h by simp
qed

end
